theory Spec2Isabelle
  imports Main
begin

section \<open>The host framework, as far as the script calls into it\<close>

text \<open>
  The script \<^verbatim>\<open>FutureTrailingStopOrderOnExtendedHoursRegressionAlgorithm.py\<close> is a
  subclass of the host's \<^verbatim>\<open>QCAlgorithm\<close>. The host class, its enumerations and its
  order pipeline are not part of the source file; the script only calls them. Each host
  call is modelled by what it records in the host-owned part of the object, so that the
  calls the script makes, their order and their arguments can be read back.
  Host calls are taken to return normally: what the host itself may reject is outside
  the script.
\<close>

type_synonym symbol = string

text \<open>
  Modelled from the spec: the host's \<^verbatim>\<open>OrderStatus\<close> enumeration is missing; the script
  names only \<^verbatim>\<open>OrderStatus.FILLED\<close>. The other members stand for every status that is
  not "filled".
\<close>

datatype OrderStatus =
  NEW | SUBMITTED | PARTIALLY_FILLED | FILLED | CANCELED | NONE | INVALID
  | CANCEL_PENDING | UPDATE_SUBMITTED

text \<open>
  Modelled from the spec: the host's \<^verbatim>\<open>Resolution\<close> enumeration and the table
  \<^verbatim>\<open>Futures.Indices\<close> are missing; the script names \<^verbatim>\<open>Resolution.MINUTE\<close> and
  \<^verbatim>\<open>Futures.Indices.SP_500_E_MINI\<close>.
\<close>

datatype Resolution = TICK | SECOND | MINUTE | HOUR | DAILY

datatype future_ticker = SP_500_E_MINI | OTHER_FUTURE string

text \<open>
  The order-fill event the host passes to \<^verbatim>\<open>on_order_event\<close>. The script reads
  \<^verbatim>\<open>order_event.Symbol\<close> and \<^verbatim>\<open>order_event.status\<close>; the remaining fields of the host's
  event are carried along (and any further ones live in the record's extension).
\<close>

record order_event =
  Symbol :: symbol
  status :: OrderStatus
  order_id :: int
  fill_quantity :: int
  fill_price :: int

text \<open>The object \<^verbatim>\<open>add_future\<close> returns: the subscription it was created for.\<close>

record future =
  ticker :: future_ticker
  resolution :: Resolution
  extended_market_hours :: bool

text \<open>A calendar date as the three integers given to \<^verbatim>\<open>set_start_date\<close>.\<close>

datatype date = Date (year: int) (month: int) (day: int)

text \<open>
  \<^verbatim>\<open>self.date_rules.every_day()\<close>, \<^verbatim>\<open>self.time_rules.at(h, m)\<close> and the bound method
  handed to the scheduler.
\<close>

datatype date_rule = EVERY_DAY

datatype time_rule = AT int int

datatype callback = MAKE_MARKET_AND_STOP_MARKET_ORDER

record scheduled_event =
  on_dates :: date_rule
  at_time :: time_rule
  action :: callback

text \<open>An order request as it enters the host's order pipeline.\<close>

datatype order_request =
  is_MarketOrder: MarketOrder (order_symbol: symbol) (quantity: int)
  | is_TrailingStopOrder: TrailingStopOrder (order_symbol: symbol) (quantity: int)
      (trailing_amount: int) (trailing_as_percentage: bool)

text \<open>
  Modelled from the spec: the base class \<^verbatim>\<open>QCAlgorithm\<close> is missing. Its state is the
  simulation window, the subscribed instruments, the registered schedule, the orders
  submitted so far (oldest first), and the two answers the host gives at the current
  simulated time: whether the market of a symbol is open, and which contract a future
  is currently mapped to.
\<close>

record qc_algorithm =
  start_date :: "date option"
  end_date :: "date option"
  securities :: "future list"
  scheduled_events :: "scheduled_event list"
  transactions :: "order_request list"
  market_open :: "symbol \<Rightarrow> bool"
  mapped_contract :: "future \<Rightarrow> symbol"

text \<open>Modelled from the spec: \<^verbatim>\<open>set_start_date\<close>, configure the simulation window.\<close>

definition set_start_date ::
  "'a qc_algorithm_scheme \<Rightarrow> int \<Rightarrow> int \<Rightarrow> int \<Rightarrow> 'a qc_algorithm_scheme" where
  "set_start_date self y m d = self\<lparr>start_date := Some (Date y m d)\<rparr>"

text \<open>Modelled from the spec: \<^verbatim>\<open>set_end_date\<close>, configure the simulation window.\<close>

definition set_end_date ::
  "'a qc_algorithm_scheme \<Rightarrow> int \<Rightarrow> int \<Rightarrow> int \<Rightarrow> 'a qc_algorithm_scheme" where
  "set_end_date self y m d = self\<lparr>end_date := Some (Date y m d)\<rparr>"

text \<open>
  Modelled from the spec: \<^verbatim>\<open>add_future\<close>, subscribe an instrument; returns the
  instrument object and the host state with the subscription added.
\<close>

definition add_future ::
  "'a qc_algorithm_scheme \<Rightarrow> future_ticker \<Rightarrow> Resolution \<Rightarrow> bool
    \<Rightarrow> future \<times> 'a qc_algorithm_scheme" where
  "add_future self t r ext =
     (let f = \<lparr>ticker = t, resolution = r, extended_market_hours = ext\<rparr>
      in (f, self\<lparr>securities := securities self @ [f]\<rparr>))"

text \<open>Modelled from the spec: \<^verbatim>\<open>schedule.on\<close>, register a time-based callback.\<close>

definition schedule_on ::
  "'a qc_algorithm_scheme \<Rightarrow> date_rule \<Rightarrow> time_rule \<Rightarrow> callback
    \<Rightarrow> 'a qc_algorithm_scheme" where
  "schedule_on self dr tr cb =
     self\<lparr>scheduled_events := scheduled_events self
            @ [\<lparr>on_dates = dr, at_time = tr, action = cb\<rparr>]\<rparr>"

text \<open>Modelled from the spec: \<^verbatim>\<open>market_order\<close>, place a market order.\<close>

definition market_order ::
  "'a qc_algorithm_scheme \<Rightarrow> symbol \<Rightarrow> int \<Rightarrow> 'a qc_algorithm_scheme" where
  "market_order self s q = self\<lparr>transactions := transactions self @ [MarketOrder s q]\<rparr>"

text \<open>Modelled from the spec: \<^verbatim>\<open>trailing_stop_order\<close>, place a trailing-stop order.\<close>

definition trailing_stop_order ::
  "'a qc_algorithm_scheme \<Rightarrow> symbol \<Rightarrow> int \<Rightarrow> int \<Rightarrow> bool \<Rightarrow> 'a qc_algorithm_scheme" where
  "trailing_stop_order self s q amount as_percentage =
     self\<lparr>transactions := transactions self @ [TrailingStopOrder s q amount as_percentage]\<rparr>"

text \<open>Modelled from the spec: \<^verbatim>\<open>is_market_open\<close>, query market-open status.\<close>

definition is_market_open :: "'a qc_algorithm_scheme \<Rightarrow> symbol \<Rightarrow> bool" where
  "is_market_open self s = market_open self s"

text \<open>Modelled from the spec: the attribute \<^verbatim>\<open>mapped\<close> of the host's future object.\<close>

definition mapped :: "'a qc_algorithm_scheme \<Rightarrow> future \<Rightarrow> symbol" where
  "mapped self f = mapped_contract self f"

section \<open>The script\<close>

text \<open>
  The class adds one attribute to the host's object: \<^verbatim>\<open>sp_500_e_mini\<close>, \<^verbatim>\<open>None\<close> in the
  class body.
\<close>

record algorithm = qc_algorithm +
  sp_500_e_mini :: "future option"

text \<open>
  What Python raises: the \<^verbatim>\<open>Exception\<close> of line 44 with its message, and the
  \<^verbatim>\<open>AttributeError\<close> of reading \<^verbatim>\<open>.mapped\<close> from \<^verbatim>\<open>None\<close>. A method yields its outcome
  together with the object as it is when the method returns or raises.
\<close>

datatype error = Exception string | AttributeError

datatype outcome = Returned | Raised error

text \<open>Lines 26 to 34.\<close>

definition initialize :: "algorithm \<Rightarrow> outcome \<times> algorithm" where
  "initialize self =
     (let self = set_start_date self 2013 10 6;
          self = set_end_date self 2013 10 12;
          (f, self) = add_future self SP_500_E_MINI MINUTE True;
          self = self\<lparr>sp_500_e_mini := Some f\<rparr>;
          self = schedule_on self EVERY_DAY (AT 19 0) MAKE_MARKET_AND_STOP_MARKET_ORDER
      in (Returned, self))"

text \<open>Lines 37 to 39.\<close>

definition make_market_and_stop_market_order :: "algorithm \<Rightarrow> outcome \<times> algorithm" where
  "make_market_and_stop_market_order self =
     (case sp_500_e_mini self of
        None \<Rightarrow> (Raised AttributeError, self)
      | Some f \<Rightarrow>
          (let self = market_order self (mapped self f) 1
           in case sp_500_e_mini self of
                None \<Rightarrow> (Raised AttributeError, self)
              | Some g \<Rightarrow>
                  (Returned, trailing_stop_order self (mapped self g) (- 1) 5 False)))"

text \<open>Lines 42 to 44. Python's \<^verbatim>\<open>and\<close> reads the status only when the market is open.\<close>

definition on_order_event ::
  "algorithm \<Rightarrow> 'e order_event_scheme \<Rightarrow> outcome \<times> algorithm" where
  "on_order_event self order_event =
     (if is_market_open self (Symbol order_event) then
        (if status order_event = FILLED
         then (Raised (Exception ''Order filled during regular hours.''), self)
         else (Returned, self))
      else (Returned, self))"

section \<open>The host's run\<close>

text \<open>
  A new instance: nothing configured, nothing subscribed, scheduled or submitted, and
  the class attribute \<^verbatim>\<open>sp_500_e_mini = None\<close> of line 23.
\<close>

definition new_algorithm :: "(symbol \<Rightarrow> bool) \<Rightarrow> (future \<Rightarrow> symbol) \<Rightarrow> algorithm" where
  "new_algorithm mo mc =
     \<lparr>start_date = None, end_date = None, securities = [], scheduled_events = [],
      transactions = [], market_open = mo, mapped_contract = mc, sp_500_e_mini = None\<rparr>"

text \<open>
  Modelled from the spec: the host's main loop is missing. The host drives all control
  flow: simulated time passes (which changes the host's answers about open markets and
  mapped contracts), the scheduler reaches a trigger and calls the actions registered
  with it in the order of registration, and the order pipeline delivers order events.
  An exception that leaves a callback aborts the run.
\<close>

datatype host_event =
  TimePasses "symbol \<Rightarrow> bool" "future \<Rightarrow> symbol"
  | ScheduleTrigger
  | OrderEventDelivered order_event

fun invoke :: "callback \<Rightarrow> algorithm \<Rightarrow> outcome \<times> algorithm" where
  "invoke MAKE_MARKET_AND_STOP_MARKET_ORDER self = make_market_and_stop_market_order self"

fun fire :: "scheduled_event list \<Rightarrow> algorithm \<Rightarrow> outcome \<times> algorithm" where
  "fire [] self = (Returned, self)"
| "fire (s # ss) self =
     (case invoke (action s) self of
        (Returned, self') \<Rightarrow> fire ss self'
      | (Raised e, self') \<Rightarrow> (Raised e, self'))"

fun dispatch :: "host_event \<Rightarrow> algorithm \<Rightarrow> outcome \<times> algorithm" where
  "dispatch (TimePasses mo mc) self =
     (Returned, self\<lparr>market_open := mo, mapped_contract := mc\<rparr>)"
| "dispatch ScheduleTrigger self = fire (scheduled_events self) self"
| "dispatch (OrderEventDelivered ev) self = on_order_event self ev"

fun host_run :: "host_event list \<Rightarrow> algorithm \<Rightarrow> outcome \<times> algorithm" where
  "host_run [] self = (Returned, self)"
| "host_run (e # es) self =
     (case dispatch e self of
        (Returned, self') \<Rightarrow> host_run es self'
      | (Raised x, self') \<Rightarrow> (Raised x, self'))"

definition backtest :: "algorithm \<Rightarrow> host_event list \<Rightarrow> outcome \<times> algorithm" where
  "backtest self es =
     (case initialize self of
        (Returned, self') \<Rightarrow> host_run es self'
      | (Raised x, self') \<Rightarrow> (Raised x, self'))"

text \<open>The orders a call has added to the pipeline, given the object before and after.\<close>

definition submitted_by :: "algorithm \<Rightarrow> algorithm \<Rightarrow> order_request list" where
  "submitted_by before after = drop (length (transactions before)) (transactions after)"

text \<open>The instrument object the setup operation obtains from the host.\<close>

definition sp_future :: future where
  "sp_future = \<lparr>ticker = SP_500_E_MINI, resolution = MINUTE, extended_market_hours = True\<rparr>"

text \<open>
  Concrete data for evaluating the script: a host at a time when every market is open
  and one when every market is closed, both mapping each future to the contract
  \<^verbatim>\<open>ESZ13\<close>; a filled and a canceled event for that contract, and a filled event
  that differs from the first in every other field.
\<close>

definition open_host :: algorithm where
  "open_host = new_algorithm (\<lambda>s. True) (\<lambda>f. ''ESZ13'')"

definition closed_host :: algorithm where
  "closed_host = new_algorithm (\<lambda>s. False) (\<lambda>f. ''ESZ13'')"

definition filled_event :: order_event where
  "filled_event =
     \<lparr>Symbol = ''ESZ13'', status = FILLED, order_id = 1, fill_quantity = 1,
      fill_price = 1670\<rparr>"

definition other_filled_event :: order_event where
  "other_filled_event =
     \<lparr>Symbol = ''ESH14'', status = FILLED, order_id = 7, fill_quantity = - 1,
      fill_price = 1680\<rparr>"

definition canceled_event :: order_event where
  "canceled_event =
     \<lparr>Symbol = ''ESZ13'', status = CANCELED, order_id = 2, fill_quantity = 0,
      fill_price = 0\<rparr>"

section \<open>The order-event handler\<close>

lemma on_order_event_state: "snd (on_order_event self ev) = self"
  by (simp add: on_order_event_def)

lemma on_order_event_raises_iff:
  "fst (on_order_event self ev) = Raised e \<longleftrightarrow>
     is_market_open self (Symbol ev) \<and> status ev = FILLED
     \<and> e = Exception ''Order filled during regular hours.''"
  by (auto simp: on_order_event_def)

text \<open>
  Claim C1. When the market of the event's symbol is open and the event's status is
  \<^verbatim>\<open>FILLED\<close>, the handler raises the exception of line 44, and the host's run stops
  there: the events that follow are not processed.
\<close>

theorem on_order_event_open_filled_raises:
  fixes ev :: order_event
  assumes "is_market_open self (Symbol ev)" and "status ev = FILLED"
  shows "on_order_event self ev
           = (Raised (Exception ''Order filled during regular hours.''), self)
         \<and> host_run (OrderEventDelivered ev # es) self
           = (Raised (Exception ''Order filled during regular hours.''), self)"
  using assms by (simp add: on_order_event_def)

theorem on_order_event_open_filled_raises_witness:
  "is_market_open open_host (Symbol filled_event) \<and> status filled_event = FILLED
   \<and> on_order_event open_host filled_event
       = (Raised (Exception ''Order filled during regular hours.''), open_host)
   \<and> host_run [OrderEventDelivered filled_event, ScheduleTrigger] open_host
       = (Raised (Exception ''Order filled during regular hours.''), open_host)"
proof -
  have m: "is_market_open open_host (Symbol filled_event)"
    by (simp add: is_market_open_def open_host_def new_algorithm_def)
  have s: "status filled_event = FILLED"
    by (simp add: filled_event_def)
  show ?thesis
    using m s on_order_event_open_filled_raises [OF m s, of "[ScheduleTrigger]"] by simp
qed

text \<open>
  Claim C2. When the market of the event's symbol is closed, the handler returns
  normally and leaves the object as it was, whatever the event's status.
\<close>

theorem on_order_event_closed_returns:
  assumes "\<not> is_market_open self (Symbol ev)"
  shows "on_order_event self ev = (Returned, self)"
  using assms by (simp add: on_order_event_def)

theorem on_order_event_closed_returns_witness:
  "\<not> is_market_open closed_host (Symbol filled_event)
   \<and> on_order_event closed_host filled_event = (Returned, closed_host)"
proof -
  have m: "\<not> is_market_open closed_host (Symbol filled_event)"
    by (simp add: is_market_open_def closed_host_def new_algorithm_def)
  show ?thesis using m on_order_event_closed_returns [OF m] by simp
qed

text \<open>
  Claim C8. For an event whose status is not \<^verbatim>\<open>FILLED\<close>, the handler returns normally,
  also when the market of the event's symbol is open.
\<close>

theorem on_order_event_not_filled_returns:
  assumes "status ev \<noteq> FILLED"
  shows "on_order_event self ev = (Returned, self)"
  using assms by (simp add: on_order_event_def)

theorem on_order_event_not_filled_returns_witness:
  "is_market_open open_host (Symbol canceled_event) \<and> status canceled_event \<noteq> FILLED
   \<and> on_order_event open_host canceled_event = (Returned, open_host)"
proof -
  have m: "is_market_open open_host (Symbol canceled_event)"
    by (simp add: is_market_open_def open_host_def new_algorithm_def)
  have s: "status canceled_event \<noteq> FILLED"
    by (simp add: canceled_event_def)
  show ?thesis using m s on_order_event_not_filled_returns [OF s, of open_host] by simp
qed

text \<open>
  Claim C10. Two deliveries that agree on whether the market of the event's symbol is
  open and on the event's status have the same outcome: the objects, the symbols and
  all other fields of the two events (also fields beyond the ones listed in
  \<open>order_event\<close>) may differ.
\<close>

theorem on_order_event_outcome_determined:
  fixes ev1 :: "'a order_event_scheme" and ev2 :: "'b order_event_scheme"
  assumes "is_market_open self1 (Symbol ev1) = is_market_open self2 (Symbol ev2)"
    and "status ev1 = status ev2"
  shows "fst (on_order_event self1 ev1) = fst (on_order_event self2 ev2)"
  using assms by (simp add: on_order_event_def)

theorem on_order_event_outcome_determined_witness:
  "is_market_open open_host (Symbol filled_event)
     = is_market_open (snd (initialize open_host)) (Symbol other_filled_event)
   \<and> status filled_event = status other_filled_event
   \<and> filled_event \<noteq> other_filled_event
   \<and> fst (on_order_event open_host filled_event)
       = fst (on_order_event (snd (initialize open_host)) other_filled_event)"
proof -
  have m: "is_market_open open_host (Symbol filled_event)
     = is_market_open (snd (initialize open_host)) (Symbol other_filled_event)"
    by (simp add: is_market_open_def open_host_def new_algorithm_def initialize_def
        set_start_date_def set_end_date_def add_future_def schedule_on_def Let_def)
  have s: "status filled_event = status other_filled_event"
    by (simp add: filled_event_def other_filled_event_def)
  have d: "filled_event \<noteq> other_filled_event"
    by (simp add: filled_event_def other_filled_event_def)
  show ?thesis using m s d on_order_event_outcome_determined [OF m s] by simp
qed

text \<open>Each of the two inputs does decide the outcome.\<close>

lemma on_order_event_depends_on_market:
  "fst (on_order_event open_host filled_event)
     \<noteq> fst (on_order_event closed_host filled_event)"
  by (simp add: on_order_event_def is_market_open_def open_host_def closed_host_def
      new_algorithm_def filled_event_def)

lemma on_order_event_depends_on_status:
  "fst (on_order_event open_host filled_event)
     \<noteq> fst (on_order_event open_host canceled_event)"
  by (simp add: on_order_event_def is_market_open_def open_host_def new_algorithm_def
      filled_event_def canceled_event_def)

section \<open>The setup operation\<close>

lemma initialize_eq:
  "initialize self =
     (Returned,
      self\<lparr>start_date := Some (Date 2013 10 6),
           end_date := Some (Date 2013 10 12),
           securities := securities self @ [sp_future],
           scheduled_events := scheduled_events self
             @ [\<lparr>on_dates = EVERY_DAY, at_time = AT 19 0,
                 action = MAKE_MARKET_AND_STOP_MARKET_ORDER\<rparr>],
           sp_500_e_mini := Some sp_future\<rparr>)"
  by (simp add: initialize_def set_start_date_def set_end_date_def add_future_def
      schedule_on_def sp_future_def Let_def)

lemma initialize_sp: "sp_500_e_mini (snd (initialize self)) = Some sp_future"
  by (simp add: initialize_eq)

lemma backtest_eq: "backtest self es = host_run es (snd (initialize self))"
  by (simp add: backtest_def initialize_eq)

text \<open>
  Claim C4. The setup operation returns normally; it sets the start date to
  2013-10-06 and the end date to 2013-10-12, adds one subscription (the SP 500 E-mini
  future, minute resolution, extended market hours enabled), keeps the instrument in
  \<^verbatim>\<open>sp_500_e_mini\<close>, and registers one scheduled event (every day, at 19:00, calling
  \<^verbatim>\<open>make_market_and_stop_market_order\<close>); it submits no order and changes nothing else.
  On a new instance the instrument and the scheduled event are the only ones.
\<close>

theorem initialize_configures:
  "initialize self =
     (Returned,
      self\<lparr>start_date := Some (Date 2013 10 6),
           end_date := Some (Date 2013 10 12),
           securities := securities self
             @ [\<lparr>ticker = SP_500_E_MINI, resolution = MINUTE,
                 extended_market_hours = True\<rparr>],
           scheduled_events := scheduled_events self
             @ [\<lparr>on_dates = EVERY_DAY, at_time = AT 19 0,
                 action = MAKE_MARKET_AND_STOP_MARKET_ORDER\<rparr>],
           sp_500_e_mini := Some \<lparr>ticker = SP_500_E_MINI, resolution = MINUTE,
                                  extended_market_hours = True\<rparr>\<rparr>)
   \<and> initialize (new_algorithm mo mc) =
     (Returned,
      \<lparr>start_date = Some (Date 2013 10 6),
       end_date = Some (Date 2013 10 12),
       securities = [\<lparr>ticker = SP_500_E_MINI, resolution = MINUTE,
                      extended_market_hours = True\<rparr>],
       scheduled_events = [\<lparr>on_dates = EVERY_DAY, at_time = AT 19 0,
                             action = MAKE_MARKET_AND_STOP_MARKET_ORDER\<rparr>],
       transactions = [],
       market_open = mo,
       mapped_contract = mc,
       sp_500_e_mini = Some \<lparr>ticker = SP_500_E_MINI, resolution = MINUTE,
                             extended_market_hours = True\<rparr>\<rparr>)"
  by (simp add: initialize_def set_start_date_def set_end_date_def add_future_def
      schedule_on_def new_algorithm_def Let_def)

section \<open>The scheduled action\<close>

lemma make_orders_Some:
  assumes "sp_500_e_mini self = Some f"
  shows "make_market_and_stop_market_order self =
     (Returned,
      self\<lparr>transactions := transactions self
             @ [MarketOrder (mapped self f) 1,
                TrailingStopOrder (mapped self f) (- 1) 5 False]\<rparr>)"
  using assms
  by (simp add: make_market_and_stop_market_order_def market_order_def
      trailing_stop_order_def mapped_def Let_def)

lemma make_more:
  "qc_algorithm.more (snd (make_market_and_stop_market_order self)) = qc_algorithm.more self"
  by (cases "sp_500_e_mini self")
     (simp_all add: make_market_and_stop_market_order_def market_order_def
      trailing_stop_order_def mapped_def Let_def)

text \<open>
  Claim C7. The one trailing-stop order the scheduled action submits has trailing
  amount 5 and its trailing-as-percentage flag is false: the offset is an absolute one.
\<close>

theorem trailing_stop_order_fixed_offset:
  assumes "sp_500_e_mini self = Some f"
  shows "map (\<lambda>r. (trailing_amount r, trailing_as_percentage r))
           (filter is_TrailingStopOrder
              (submitted_by self (snd (make_market_and_stop_market_order self))))
         = [(5, False)]"
  using make_orders_Some [OF assms] by (simp add: submitted_by_def)

theorem trailing_stop_order_fixed_offset_witness:
  "sp_500_e_mini (snd (initialize closed_host)) = Some sp_future
   \<and> map (\<lambda>r. (trailing_amount r, trailing_as_percentage r))
         (filter is_TrailingStopOrder
            (submitted_by (snd (initialize closed_host))
               (snd (make_market_and_stop_market_order (snd (initialize closed_host))))))
       = [(5, False)]"
proof -
  have sp: "sp_500_e_mini (snd (initialize closed_host)) = Some sp_future"
    by (rule initialize_sp)
  show ?thesis using sp trailing_stop_order_fixed_offset [OF sp] by simp
qed

section \<open>The script's own state during a run\<close>

text \<open>
  \<open>qc_algorithm.more\<close> is the part of the object that the script's class adds to the
  host's base class.
\<close>

lemma more_eq: "qc_algorithm.more self = algorithm.fields (sp_500_e_mini self)"
  for self :: algorithm
  by (cases self) (simp add: algorithm.defs)

lemma sp_of_more:
  fixes a b :: algorithm
  assumes "qc_algorithm.more a = qc_algorithm.more b"
  shows "sp_500_e_mini a = sp_500_e_mini b"
  using assms by (cases a, cases b) simp

lemma on_order_event_more:
  "qc_algorithm.more (snd (on_order_event self ev)) = qc_algorithm.more self"
  by (simp add: on_order_event_state)

lemma invoke_more: "qc_algorithm.more (snd (invoke cb self)) = qc_algorithm.more self"
  by (cases cb) (simp add: make_more)

lemma fire_more: "qc_algorithm.more (snd (fire ss self)) = qc_algorithm.more self"
proof (induction ss arbitrary: self)
  case Nil
  show ?case by simp
next
  case (Cons s ss)
  obtain r self' where inv: "invoke (action s) self = (r, self')"
    by (cases "invoke (action s) self")
  have keep: "qc_algorithm.more self' = qc_algorithm.more self"
    using invoke_more [of "action s" self] inv by simp
  show ?case
  proof (cases r)
    case Returned
    then show ?thesis using inv keep Cons.IH [of self'] by simp
  next
    case (Raised e)
    then show ?thesis using inv keep by simp
  qed
qed

lemma dispatch_more: "qc_algorithm.more (snd (dispatch e self)) = qc_algorithm.more self"
  by (cases e) (simp_all add: fire_more on_order_event_state)

lemma host_run_more: "qc_algorithm.more (snd (host_run es self)) = qc_algorithm.more self"
proof (induction es arbitrary: self)
  case Nil
  show ?case by simp
next
  case (Cons e es)
  obtain r self' where d: "dispatch e self = (r, self')"
    by (cases "dispatch e self")
  have keep: "qc_algorithm.more self' = qc_algorithm.more self"
    using dispatch_more [of e self] d by simp
  show ?case
  proof (cases r)
    case Returned
    then show ?thesis using d keep Cons.IH [of self'] by simp
  next
    case (Raised x)
    then show ?thesis using d keep by simp
  qed
qed

lemma host_run_sp: "sp_500_e_mini (snd (host_run es self)) = sp_500_e_mini self"
  by (rule sp_of_more) (rule host_run_more)

lemma fire_Returned:
  assumes "sp_500_e_mini self = Some f"
  shows "fst (fire ss self) = Returned"
  using assms
proof (induction ss arbitrary: self)
  case Nil
  show ?case by simp
next
  case (Cons s ss)
  let ?self' = "snd (make_market_and_stop_market_order self)"
  have m: "make_market_and_stop_market_order self = (Returned, ?self')"
    using make_orders_Some [OF Cons.prems] by simp
  have "sp_500_e_mini ?self' = Some f"
    using sp_of_more [OF make_more, of self] Cons.prems by simp
  then have "fst (fire ss ?self') = Returned" by (rule Cons.IH)
  moreover have "invoke (action s) self = (Returned, ?self')"
    using m by (cases "action s") simp
  ultimately show ?case by simp
qed

lemma dispatch_Raised:
  assumes sp: "sp_500_e_mini self = Some f"
    and d: "dispatch e self = (Raised x, self')"
  shows "x = Exception ''Order filled during regular hours.'' \<and> self' = self
         \<and> (\<exists>ev. e = OrderEventDelivered ev \<and> is_market_open self (Symbol ev)
                 \<and> status ev = FILLED)"
proof (cases e)
  case (TimePasses mo mc)
  then show ?thesis using d by simp
next
  case ScheduleTrigger
  then show ?thesis using d fire_Returned [OF sp, of "scheduled_events self"] by simp
next
  case (OrderEventDelivered ev)
  then show ?thesis using d by (auto simp: on_order_event_def split: if_splits)
qed

lemma host_run_Raised:
  assumes "sp_500_e_mini self = Some f"
    and "host_run es self = (Raised x, self')"
  shows "x = Exception ''Order filled during regular hours.''
         \<and> (\<exists>pre ev post. es = pre @ OrderEventDelivered ev # post
               \<and> host_run pre self = (Returned, self')
               \<and> is_market_open self' (Symbol ev) \<and> status ev = FILLED)"
  using assms
proof (induction es arbitrary: self)
  case Nil
  then show ?case by simp
next
  case (Cons e es)
  obtain r self1 where d: "dispatch e self = (r, self1)"
    by (cases "dispatch e self")
  show ?case
  proof (cases r)
    case (Raised y)
    have h: "dispatch e self = (Raised x, self')"
      using Cons.prems(2) d Raised by simp
    from dispatch_Raised [OF Cons.prems(1) h]
    obtain ev where x: "x = Exception ''Order filled during regular hours.''"
      and s: "self' = self" and e: "e = OrderEventDelivered ev"
      and o: "is_market_open self (Symbol ev)" "status ev = FILLED"
      by blast
    have "e # es = [] @ OrderEventDelivered ev # es \<and> host_run [] self = (Returned, self')
          \<and> is_market_open self' (Symbol ev) \<and> status ev = FILLED"
      using s e o by simp
    then show ?thesis using x by blast
  next
    case Returned
    have sp1: "sp_500_e_mini self1 = Some f"
      using sp_of_more [OF dispatch_more, of e self] d Cons.prems(1) by simp
    have r1: "host_run es self1 = (Raised x, self')"
      using Cons.prems(2) d Returned by simp
    from Cons.IH [OF sp1 r1]
    obtain pre ev post where x: "x = Exception ''Order filled during regular hours.''"
      and es: "es = pre @ OrderEventDelivered ev # post"
      and p: "host_run pre self1 = (Returned, self')"
      and o: "is_market_open self' (Symbol ev)" "status ev = FILLED"
      by blast
    have "e # es = (e # pre) @ OrderEventDelivered ev # post
          \<and> host_run (e # pre) self = (Returned, self')
          \<and> is_market_open self' (Symbol ev) \<and> status ev = FILLED"
      using es p o d Returned by simp
    then show ?thesis using x by blast
  qed
qed

subsection \<open>The schedule during a run\<close>

lemma make_scheduled_events:
  "scheduled_events (snd (make_market_and_stop_market_order self)) = scheduled_events self"
  by (cases "sp_500_e_mini self")
     (simp_all add: make_market_and_stop_market_order_def market_order_def
      trailing_stop_order_def mapped_def Let_def)

lemma fire_scheduled_events:
  "scheduled_events (snd (fire ss self)) = scheduled_events self"
proof (induction ss arbitrary: self)
  case Nil
  show ?case by simp
next
  case (Cons s ss)
  let ?m = "make_market_and_stop_market_order self"
  have inv: "invoke (action s) self = ?m" by (cases "action s") simp
  show ?case
  proof (cases "fst ?m")
    case Returned
    then have "fire (s # ss) self = fire ss (snd ?m)"
      using inv by (cases ?m) simp
    then show ?thesis using Cons.IH [of "snd ?m"] make_scheduled_events [of self] by simp
  next
    case (Raised e)
    then have "fire (s # ss) self = ?m"
      using inv by (cases ?m) simp
    then show ?thesis using make_scheduled_events [of self] by simp
  qed
qed

lemma dispatch_scheduled_events:
  "scheduled_events (snd (dispatch e self)) = scheduled_events self"
  by (cases e) (simp_all add: fire_scheduled_events on_order_event_state)

lemma host_run_scheduled_events:
  "scheduled_events (snd (host_run es self)) = scheduled_events self"
proof (induction es arbitrary: self)
  case Nil
  show ?case by simp
next
  case (Cons e es)
  let ?d = "dispatch e self"
  show ?case
  proof (cases "fst ?d")
    case Returned
    then have "host_run (e # es) self = host_run es (snd ?d)"
      by (cases ?d) simp
    then show ?thesis using Cons.IH [of "snd ?d"] dispatch_scheduled_events [of e self] by simp
  next
    case (Raised x)
    then have "host_run (e # es) self = ?d"
      by (cases ?d) simp
    then show ?thesis using dispatch_scheduled_events [of e self] by simp
  qed
qed

lemma trigger_in_run:
  assumes s: "s = snd (backtest (new_algorithm mo mc) es)"
  shows "dispatch ScheduleTrigger s = make_market_and_stop_market_order s"
proof -
  have "scheduled_events s
          = [\<lparr>on_dates = EVERY_DAY, at_time = AT 19 0,
               action = MAKE_MARKET_AND_STOP_MARKET_ORDER\<rparr>]"
    by (simp add: s backtest_eq host_run_scheduled_events initialize_eq new_algorithm_def)
  moreover have "sp_500_e_mini s = Some sp_future"
    by (simp add: s backtest_eq host_run_sp initialize_sp)
  ultimately show ?thesis
    using make_orders_Some [of s sp_future] by simp
qed

text \<open>
  Claim C3. With an instrument subscribed (held in \<^verbatim>\<open>sp_500_e_mini\<close>), an invocation of
  the scheduled action returns normally and adds exactly two orders to the pipeline,
  both for the instrument's mapped contract: first a market order of quantity 1, then a
  trailing-stop order of quantity -1. Nothing else of the object changes. In a run of a
  new instance (setup, then any host events) every trigger of the schedule is one such
  invocation, for the instrument the setup subscribed.
\<close>

theorem make_market_and_stop_market_order_submits:
  assumes "sp_500_e_mini self = Some f"
  shows "make_market_and_stop_market_order self =
     (Returned,
      self\<lparr>transactions := transactions self
             @ [MarketOrder (mapped self f) 1,
                TrailingStopOrder (mapped self f) (- 1) 5 False]\<rparr>)
   \<and> submitted_by self (snd (make_market_and_stop_market_order self))
       = [MarketOrder (mapped self f) 1, TrailingStopOrder (mapped self f) (- 1) 5 False]
   \<and> (let s = snd (backtest (new_algorithm mo mc) es)
      in dispatch ScheduleTrigger s =
           (Returned,
            s\<lparr>transactions := transactions s
                 @ [MarketOrder (mapped s sp_future) 1,
                    TrailingStopOrder (mapped s sp_future) (- 1) 5 False]\<rparr>))"
proof -
  let ?s = "snd (backtest (new_algorithm mo mc) es)"
  have "sp_500_e_mini ?s = Some sp_future"
    by (simp add: backtest_eq host_run_sp initialize_sp)
  then have "dispatch ScheduleTrigger ?s =
           (Returned,
            ?s\<lparr>transactions := transactions ?s
                 @ [MarketOrder (mapped ?s sp_future) 1,
                    TrailingStopOrder (mapped ?s sp_future) (- 1) 5 False]\<rparr>)"
    using trigger_in_run [of ?s mo mc es] make_orders_Some [of ?s sp_future] by simp
  then show ?thesis
    using make_orders_Some [OF assms] by (simp add: submitted_by_def Let_def)
qed

theorem make_market_and_stop_market_order_submits_witness:
  "sp_500_e_mini (snd (initialize open_host)) = Some sp_future
   \<and> make_market_and_stop_market_order (snd (initialize open_host)) =
     (Returned,
      (snd (initialize open_host))
        \<lparr>transactions :=
           [MarketOrder ''ESZ13'' 1, TrailingStopOrder ''ESZ13'' (- 1) 5 False]\<rparr>)
   \<and> submitted_by (snd (initialize open_host))
         (snd (make_market_and_stop_market_order (snd (initialize open_host))))
       = [MarketOrder ''ESZ13'' 1, TrailingStopOrder ''ESZ13'' (- 1) 5 False]"
proof -
  have sp: "sp_500_e_mini (snd (initialize open_host)) = Some sp_future"
    by (rule initialize_sp)
  have t: "transactions (snd (initialize open_host)) = []"
    by (simp add: initialize_eq open_host_def new_algorithm_def)
  have c: "mapped (snd (initialize open_host)) sp_future = ''ESZ13''"
    by (simp add: initialize_eq mapped_def open_host_def new_algorithm_def)
  note submits = make_market_and_stop_market_order_submits [OF sp, unfolded t c append_Nil]
  show ?thesis using sp submits by blast
qed

text \<open>
  Claim C5. What the script's class adds to the host's object is the one attribute
  \<^verbatim>\<open>sp_500_e_mini\<close>. Neither callback changes it, and no sequence of host events
  (time passing, schedule triggers, order events) does.
\<close>

theorem script_state_single_reference_unchanged:
  "qc_algorithm.more self = algorithm.fields (sp_500_e_mini self)
   \<and> qc_algorithm.more (snd (make_market_and_stop_market_order self))
       = qc_algorithm.more self
   \<and> qc_algorithm.more (snd (on_order_event self ev)) = qc_algorithm.more self
   \<and> qc_algorithm.more (snd (host_run es self)) = qc_algorithm.more self
   \<and> sp_500_e_mini (snd (host_run es self)) = sp_500_e_mini self"
  using more_eq [of self] make_more [of self] on_order_event_more [of self ev]
    host_run_more [of es self] host_run_sp [of es self]
  by blast

text \<open>
  Claim C9. \<^verbatim>\<open>sp_500_e_mini\<close> is \<^verbatim>\<open>None\<close> on a new instance; the setup operation assigns
  it the subscribed instrument; at every point of a run that follows the setup it still
  holds that instrument. So no run raises the \<^verbatim>\<open>AttributeError\<close> of reading \<^verbatim>\<open>.mapped\<close>
  from \<^verbatim>\<open>None\<close>, and the scheduled action, invoked at any point of the run, returns
  normally.
\<close>

theorem sp_500_e_mini_assigned_once:
  "sp_500_e_mini (new_algorithm mo mc) = None
   \<and> sp_500_e_mini (snd (initialize self)) = Some sp_future
   \<and> sp_500_e_mini (snd (backtest self es)) = Some sp_future
   \<and> fst (backtest self es) \<noteq> Raised AttributeError
   \<and> fst (make_market_and_stop_market_order (snd (backtest self es))) = Returned"
proof -
  have a: "sp_500_e_mini (new_algorithm mo mc) = None"
    by (simp add: new_algorithm_def)
  have b: "sp_500_e_mini (snd (backtest self es)) = Some sp_future"
    by (simp add: backtest_eq host_run_sp initialize_sp)
  have c: "fst (backtest self es) \<noteq> Raised AttributeError"
  proof
    assume "fst (backtest self es) = Raised AttributeError"
    then have "host_run es (snd (initialize self))
                 = (Raised AttributeError, snd (backtest self es))"
      by (simp add: backtest_eq prod_eq_iff)
    from host_run_Raised [OF initialize_sp this] show False by simp
  qed
  have d: "fst (make_market_and_stop_market_order (snd (backtest self es))) = Returned"
    using make_orders_Some [OF b] by simp
  show ?thesis using a b c d initialize_sp [of self] by blast
qed

section \<open>The single error path\<close>

text \<open>
  Claim C6. The setup operation never raises; the scheduled action does not raise once
  an instrument is held; the handler leaves the object as it was, also when it raises.
  In a run (setup, then any host events) that ends in an error, the error is the
  handler's exception: it was raised on delivery of a filled event for an open market,
  the object is the one the events before it had produced, and the events after it were
  not processed (nothing is retried).
\<close>

theorem single_error_path:
  "fst (initialize self) = Returned
   \<and> (sp_500_e_mini self \<noteq> None \<longrightarrow>
        fst (make_market_and_stop_market_order self) = Returned)
   \<and> snd (on_order_event self ev) = self
   \<and> (backtest self0 es = (Raised x, self') \<longrightarrow>
        x = Exception ''Order filled during regular hours.''
        \<and> (\<exists>pre ev post. es = pre @ OrderEventDelivered ev # post
              \<and> backtest self0 pre = (Returned, self')
              \<and> is_market_open self' (Symbol ev) \<and> status ev = FILLED))"
proof -
  have a: "fst (initialize self) = Returned" by (simp add: initialize_eq)
  have b: "sp_500_e_mini self \<noteq> None \<longrightarrow>
        fst (make_market_and_stop_market_order self) = Returned"
    using make_orders_Some [of self] by auto
  have c: "snd (on_order_event self ev) = self" by (rule on_order_event_state)
  have d: "backtest self0 es = (Raised x, self') \<longrightarrow>
        x = Exception ''Order filled during regular hours.''
        \<and> (\<exists>pre ev post. es = pre @ OrderEventDelivered ev # post
              \<and> backtest self0 pre = (Returned, self')
              \<and> is_market_open self' (Symbol ev) \<and> status ev = FILLED)"
    using host_run_Raised [where self = "snd (initialize self0)" and f = sp_future
        and es = es and x = x and self' = self']
    by (simp add: backtest_eq initialize_sp)
  show ?thesis using a b c d by blast
qed

theorem single_error_path_witness:
  "sp_500_e_mini (snd (initialize open_host)) \<noteq> None
   \<and> fst (make_market_and_stop_market_order (snd (initialize open_host))) = Returned
   \<and> backtest open_host
       [ScheduleTrigger, OrderEventDelivered filled_event, ScheduleTrigger]
     = (Raised (Exception ''Order filled during regular hours.''),
        snd (backtest open_host [ScheduleTrigger]))
   \<and> (\<exists>pre ev post.
         [ScheduleTrigger, OrderEventDelivered filled_event, ScheduleTrigger]
           = pre @ OrderEventDelivered ev # post
         \<and> backtest open_host pre = (Returned, snd (backtest open_host [ScheduleTrigger]))
         \<and> is_market_open (snd (backtest open_host [ScheduleTrigger])) (Symbol ev)
         \<and> status ev = FILLED)
   \<and> transactions (snd (backtest open_host [ScheduleTrigger]))
       = [MarketOrder ''ESZ13'' 1, TrailingStopOrder ''ESZ13'' (- 1) 5 False]"
proof -
  have sp: "sp_500_e_mini (snd (initialize open_host)) \<noteq> None"
    by (simp add: initialize_sp)
  have r: "backtest open_host
             [ScheduleTrigger, OrderEventDelivered filled_event, ScheduleTrigger]
     = (Raised (Exception ''Order filled during regular hours.''),
        snd (backtest open_host [ScheduleTrigger]))"
    by (simp add: backtest_def initialize_def set_start_date_def set_end_date_def
        add_future_def schedule_on_def make_market_and_stop_market_order_def
        market_order_def trailing_stop_order_def mapped_def on_order_event_def
        is_market_open_def open_host_def new_algorithm_def filled_event_def Let_def)
  have t: "transactions (snd (backtest open_host [ScheduleTrigger]))
       = [MarketOrder ''ESZ13'' 1, TrailingStopOrder ''ESZ13'' (- 1) 5 False]"
    by (simp add: backtest_def initialize_def set_start_date_def set_end_date_def
        add_future_def schedule_on_def make_market_and_stop_market_order_def
        market_order_def trailing_stop_order_def mapped_def
        open_host_def new_algorithm_def Let_def)
  show ?thesis
    using sp r t
      single_error_path [where self = "snd (initialize open_host)" and self0 = open_host
        and es = "[ScheduleTrigger, OrderEventDelivered filled_event, ScheduleTrigger]"
        and x = "Exception ''Order filled during regular hours.''"
        and self' = "snd (backtest open_host [ScheduleTrigger])"]
    by blast
qed

end
